theory Spec2Isabelle
  imports Main "HOL-Library.Word" "HOL-Library.Signed_Division"
begin

section \<open>Alacritheme: a shallow embedding of main.go\<close>

text \<open>
  The program is one Go file. Its collaborators (the operating system's file calls,
  the TOML library, the terminal widgets and the layout library) are not part of the
  repository. The file system is modelled as an explicit state; the TOML decoder and
  encoder and the widgets' own key handling are parameters of the functions that call
  them, so every theorem holds for whatever those libraries compute.
\<close>

subsection \<open>Errors and the file system\<close>

type_synonym bytes = string

datatype error =
    ENOENT string      \<comment> \<open>no such file or directory\<close>
  | EISDIR string      \<comment> \<open>a file operation on a directory\<close>
  | ENOTDIR string     \<comment> \<open>a directory operation on a file\<close>
  | EACCES string      \<comment> \<open>permission denied\<close>
  | DecodeError string \<comment> \<open>returned by toml.Unmarshal\<close>
  | EncodeError string \<comment> \<open>returned by the TOML encoder\<close>

text \<open>\<open>err.Error()\<close>, as \<open>%v\<close> prints it.\<close>

fun Error :: "error \<Rightarrow> string" where
  "Error (ENOENT p) = p @ '': no such file or directory''"
| "Error (EISDIR p) = p @ '': is a directory''"
| "Error (ENOTDIR p) = p @ '': not a directory''"
| "Error (EACCES p) = p @ '': permission denied''"
| "Error (DecodeError s) = s"
| "Error (EncodeError s) = s"

fun IsNotExist :: "error \<Rightarrow> bool" where
  "IsNotExist (ENOENT p) = True"
| "IsNotExist e = False"

record DirEntry =
  Name :: string
  IsDir :: bool

datatype node = File bytes | Directory "DirEntry list"

text \<open>
  A directory node carries its entries in the order \<open>os.ReadDir\<close> returns them.
  Reads of the paths in \<open>unreadable\<close> and writes to the paths in
  \<open>unwritable\<close> fail.
\<close>

record filesystem =
  nodes :: "string \<rightharpoonup> node"
  unreadable :: "string set"
  unwritable :: "string set"

definition ReadFile :: "filesystem \<Rightarrow> string \<Rightarrow> error + bytes" where
  "ReadFile fs p =
     (case nodes fs p of
        None \<Rightarrow> Inl (ENOENT p)
      | Some (Directory es) \<Rightarrow> Inl (EISDIR p)
      | Some (File bs) \<Rightarrow> if p \<in> unreadable fs then Inl (EACCES p) else Inr bs)"

definition WriteFile :: "filesystem \<Rightarrow> string \<Rightarrow> bytes \<Rightarrow> error option \<times> filesystem" where
  "WriteFile fs p bs =
     (case nodes fs p of
        Some (Directory es) \<Rightarrow> (Some (EISDIR p), fs)
      | _ \<Rightarrow> if p \<in> unwritable fs then (Some (EACCES p), fs)
             else (None, fs\<lparr>nodes := (nodes fs)(p \<mapsto> File bs)\<rparr>))"

definition Stat :: "filesystem \<Rightarrow> string \<Rightarrow> error option" where
  "Stat fs p = (case nodes fs p of None \<Rightarrow> Some (ENOENT p) | Some n \<Rightarrow> None)"

text \<open>\<open>os.Create\<close> truncates or creates the file.\<close>

definition Create :: "filesystem \<Rightarrow> string \<Rightarrow> error option \<times> filesystem" where
  "Create fs p = WriteFile fs p []"

definition ReadDir :: "filesystem \<Rightarrow> string \<Rightarrow> error + DirEntry list" where
  "ReadDir fs p =
     (case nodes fs p of
        None \<Rightarrow> Inl (ENOENT p)
      | Some (File bs) \<Rightarrow> Inl (ENOTDIR p)
      | Some (Directory es) \<Rightarrow> if p \<in> unreadable fs then Inl (EACCES p) else Inr es)"

type_synonym environ = "string \<rightharpoonup> string"

definition Getenv :: "environ \<Rightarrow> string \<Rightarrow> string" where
  "Getenv env k = (case env k of None \<Rightarrow> [] | Some v \<Rightarrow> v)"

subsection \<open>Configuration documents\<close>

text \<open>
  The values a \<open>map[string]interface{}\<close> holds after decoding, plus
  \<open>StringSlice\<close> for the \<open>[]string\<close> that \<open>updateConfig\<close> stores. Floats and
  date-times are kept in their written form: the program never looks inside them.
\<close>

datatype tval =
    TString string
  | TBool bool
  | TInteger int
  | TFloat string
  | TTime string
  | TArray "tval list"
  | StringSlice "string list"
  | Table "string \<Rightarrow> tval option"

type_synonym document = "string \<rightharpoonup> tval"

text \<open>
  \<open>toml.Unmarshal\<close> into a nil map leaves it nil (\<open>None\<close>) or allocates it; the
  encoder writes a document or fails.
\<close>

type_synonym unmarshal = "bytes \<Rightarrow> error + document option"
type_synonym encode = "document \<Rightarrow> error + bytes"

subsection \<open>Colour schemes and the layout library\<close>

record Primary =
  Background :: string
  Foreground :: string

text \<open>The \<open>Normal\<close> and \<open>Bright\<close> structs have the same eight fields.\<close>

record Ansi =
  Black :: string
  Red :: string
  Green :: string
  Yellow :: string
  Blue :: string
  Magenta :: string
  Cyan :: string
  White :: string

record Colors =
  Primary :: Primary
  Normal :: Ansi
  Bright :: Ansi

record ColorScheme =
  Colors :: Colors

text \<open>Go's \<open>int\<close> on a 64-bit platform; \<open>/\<close> truncates towards zero.\<close>

type_synonym go_int = "64 word"

definition go_div :: "go_int \<Rightarrow> go_int \<Rightarrow> go_int" where
  "go_div a b = word_of_int (sint a sdiv sint b)"

text \<open>
  The strings that lipgloss returns are kept as the calls that produce them: a
  \<open>layout\<close> is the text a call of the layout library stands for, with the style's
  setters in the order the program applies them.
\<close>

datatype position = Center | Left

datatype color = Color string | NoColor

datatype border = RoundedBorder

datatype setter =
    SWidth go_int
  | SHeight go_int
  | SAlign position
  | SBackground color
  | SPadding go_int
  | SPaddingTop go_int
  | SBorder border
  | SBorderForeground color
  | SBold bool

type_synonym style = "setter list"

datatype layout =
    Str string
  | Render style layout
  | JoinHorizontal position "layout list"
  | JoinVertical position "layout list"
  | Sprintf "layout list"   \<comment> \<open>the pieces of a formatted string, in order\<close>

subsection \<open>Widgets, messages and commands\<close>

record item =
  title :: string
  path :: string
  isDirectory :: bool

text \<open>
  What the program reads from the list widget: the items it shows and the index of the
  highlighted one. \<open>Index\<close> and \<open>SelectedItem\<close> are the widget's accessors.
\<close>

record list_model =
  VisibleItems :: "item list"
  cursor :: nat

definition Index :: "list_model \<Rightarrow> int" where
  "Index l = int (cursor l)"

definition SelectedItem :: "list_model \<Rightarrow> item option" where
  "SelectedItem l =
     (if cursor l < length (VisibleItems l) then Some (VisibleItems l ! cursor l) else None)"

record viewport_model =
  Width :: go_int
  Height :: go_int
  shown :: layout

definition viewport_New :: "go_int \<Rightarrow> go_int \<Rightarrow> viewport_model" where
  "viewport_New w h = \<lparr>Width = w, Height = h, shown = Str []\<rparr>"

definition SetContent :: "layout \<Rightarrow> viewport_model \<Rightarrow> viewport_model" where
  "SetContent s v = v\<lparr>shown := s\<rparr>"

datatype msg =
    WindowSizeMsg go_int go_int
  | filesLoadedMsg "item list" "error option"
  | themeSelectedMsg string "error option"
  | KeyMsg string
  | OtherMsg nat

text \<open>
  A command is a deferred action. \<open>LoadFilesCmd dir\<close> is the closure that
  \<open>loadFiles dir\<close> returns, \<open>UpdateConfigCmd p\<close> the closure of
  \<open>handleSelection\<close> that calls \<open>updateConfig p\<close>, \<open>WidgetCmd\<close> a command
  of a widget, \<open>Nil\<close> the nil command.
\<close>

datatype cmd =
    Nil
  | Quit
  | LoadFilesCmd string
  | UpdateConfigCmd string
  | WidgetCmd nat
  | Batch "cmd list"

text \<open>The library functions the program calls, as parameters.\<close>

record lib =
  toml_Unmarshal :: unmarshal
  toml_UnmarshalScheme :: "string \<Rightarrow> error + ColorScheme"
  toml_Encode :: encode
  filepath_Dir :: "string \<Rightarrow> string"
  filepath_Join :: "string \<Rightarrow> string \<Rightarrow> string"
  list_SetItems :: "item list \<Rightarrow> list_model \<Rightarrow> list_model"
  list_SetWidth :: "go_int \<Rightarrow> list_model \<Rightarrow> list_model"
  list_SetHeight :: "go_int \<Rightarrow> list_model \<Rightarrow> list_model"
  list_Update :: "msg \<Rightarrow> list_model \<Rightarrow> list_model \<times> cmd"
  list_NextPage :: "list_model \<Rightarrow> list_model"
  list_PrevPage :: "list_model \<Rightarrow> list_model"
  viewport_Update :: "msg \<Rightarrow> viewport_model \<Rightarrow> viewport_model \<times> cmd"

subsection \<open>The model\<close>

record model =
  list :: list_model
  viewport :: viewport_model
  items :: "item list"
  themesDir :: string
  windowSize :: "go_int \<times> go_int"
  ready :: bool
  err :: "error option"
  configFile :: string
  originalToml :: bytes
  tomlBackup :: "document option"
  lastSelected :: int

definition initialModel :: "environ \<Rightarrow> model" where
  "initialModel env =
     \<lparr>list = \<lparr>VisibleItems = [], cursor = 0\<rparr>,
      viewport = viewport_New 0 0,
      items = [],
      themesDir = Getenv env ''THEMES_DIR'',
      windowSize = (0, 0),
      ready = False,
      err = None,
      configFile = Getenv env ''CONFIG_FILE'',
      originalToml = [],
      tomlBackup = Some Map.empty,
      lastSelected = - 1\<rparr>"

subsection \<open>Backup, patch and restore of the configuration file\<close>

text \<open>\<open>backupConfig\<close>: both fields are assigned only after the read and the parse.\<close>

definition backupConfig :: "lib \<Rightarrow> model \<Rightarrow> filesystem \<Rightarrow> model \<times> error option" where
  "backupConfig L m fs =
     (case ReadFile fs (configFile m) of
        Inl e \<Rightarrow> (m, Some e)
      | Inr content \<Rightarrow>
          (case toml_Unmarshal L content of
             Inl e \<Rightarrow> (m, Some e)
           | Inr config \<Rightarrow> (m\<lparr>originalToml := content, tomlBackup := config\<rparr>, None)))"

text \<open>
  Lines 304 to 310 of \<open>updateConfig\<close>. The type assertion succeeds only on a table;
  \<open>general\<close> is then the map stored under \<open>config["general"]\<close> itself, so the two
  assignments change the document.
\<close>

definition setImport :: "document \<Rightarrow> string \<Rightarrow> document" where
  "setImport config selectedPath =
     (case config ''general'' of
        Some (Table general) \<Rightarrow>
          config(''general'' \<mapsto>
            Table (general(''live_config_reload'' \<mapsto> TBool True,
                           ''import'' \<mapsto> StringSlice [selectedPath])))
      | _ \<Rightarrow>
          config(''live_config_reload'' \<mapsto> TBool True,
                 ''import'' \<mapsto> StringSlice [selectedPath]))"

definition updateConfig :: "lib \<Rightarrow> model \<Rightarrow> string \<Rightarrow> filesystem \<Rightarrow> error option \<times> filesystem" where
  "updateConfig L m selectedPath fs =
     (case ReadFile fs (configFile m) of
        Inl e \<Rightarrow> (Some e, fs)
      | Inr content \<Rightarrow>
          (case toml_Unmarshal L content of
             Inl e \<Rightarrow> (Some e, fs)
           | Inr config \<Rightarrow>
               (let config = (case config of None \<Rightarrow> Map.empty | Some d \<Rightarrow> d);
                    config = setImport config selectedPath
                in case toml_Encode L config of
                     Inl e \<Rightarrow> (Some e, fs)
                   | Inr buf \<Rightarrow> WriteFile fs (configFile m) buf)))"

definition restoreConfig :: "model \<Rightarrow> filesystem \<Rightarrow> error option \<times> filesystem" where
  "restoreConfig m fs = WriteFile fs (configFile m) (originalToml m)"

text \<open>The file system after the patches for a sequence of selected paths, failed ones included.\<close>

fun applySelections :: "lib \<Rightarrow> model \<Rightarrow> string list \<Rightarrow> filesystem \<Rightarrow> filesystem" where
  "applySelections L m [] fs = fs"
| "applySelections L m (p # ps) fs = applySelections L m ps (snd (updateConfig L m p fs))"

text \<open>Where a patched document holds the import list.\<close>

definition importOf :: "document \<Rightarrow> tval option" where
  "importOf config =
     (case config ''general'' of
        Some (Table general) \<Rightarrow> general ''import''
      | _ \<Rightarrow> config ''import'')"

subsection \<open>The directory lister\<close>

text \<open>\<open>strings.HasSuffix\<close>.\<close>

definition HasSuffix :: "string \<Rightarrow> string \<Rightarrow> bool" where
  "HasSuffix s suffix =
     (length s \<ge> length suffix \<and> drop (length s - length suffix) s = suffix)"

text \<open>The loop over the directory's entries, appending to \<open>items\<close>.\<close>

fun loadFiles_range :: "lib \<Rightarrow> string \<Rightarrow> DirEntry list \<Rightarrow> item list \<Rightarrow> item list" where
  "loadFiles_range L dir [] its = its"
| "loadFiles_range L dir (file # files) its =
     (let filePath = filepath_Join L dir (Name file)
      in if IsDir file \<or> HasSuffix (Name file) ''.toml''
         then loadFiles_range L dir files
                (its @ [\<lparr>title = Name file, path = filePath, isDirectory = IsDir file\<rparr>])
         else loadFiles_range L dir files its)"

text \<open>The body of the command that \<open>loadFiles dir\<close> returns.\<close>

definition loadFiles :: "lib \<Rightarrow> environ \<Rightarrow> filesystem \<Rightarrow> string \<Rightarrow> msg" where
  "loadFiles L env fs dir =
     (case ReadDir fs dir of
        Inl e \<Rightarrow> filesLoadedMsg [] (Some e)
      | Inr files \<Rightarrow>
          (let its = [];
               its = (if dir \<noteq> Getenv env ''THEMES_DIR''
                      then its @ [\<lparr>title = ''..'', path = filepath_Dir L dir, isDirectory = True\<rparr>]
                      else its)
           in filesLoadedMsg (loadFiles_range L dir files its) None))"

subsection \<open>The preview renderer\<close>

definition renderColorBox :: "string \<Rightarrow> string \<Rightarrow> go_int \<Rightarrow> layout" where
  "renderColorBox colour label boxWidth =
     (let labelStyle = [SWidth boxWidth, SAlign Center];
          boxStyle = [SBackground (Color colour), SWidth boxWidth, SHeight 1, SAlign Center]
      in Sprintf [Render boxStyle (Str '' ''), Str [CHR 0x0A],
                  Render labelStyle (Render [SWidth boxWidth] (Str label))])"

definition numColumns :: go_int where
  "numColumns = 4"

text \<open>
  The loop of \<open>renderColorGroup\<close>: rows of \<open>numColumns\<close> boxes, the slice
  \<open>colors[i:end]\<close> being \<open>take (end - i) (drop i colors)\<close>.
\<close>

function renderColorGroup_rows ::
  "(string \<times> string) list \<Rightarrow> go_int \<Rightarrow> nat \<Rightarrow> layout list \<Rightarrow> layout list" where
  "renderColorGroup_rows colors boxWidth i rows =
     (if i < length colors then
        (let end = i + unat numColumns;
             end = (if end > length colors then length colors else end);
             row = map (\<lambda>c. renderColorBox (fst c) (snd c) boxWidth)
                       (take (end - i) (drop i colors))
         in renderColorGroup_rows colors boxWidth (i + unat numColumns)
              (rows @ [JoinHorizontal Center row]))
      else rows)"
  by pat_completeness auto
termination
  by (relation "measure (\<lambda>(colors, boxWidth, i, rows). length colors - i)")
     (auto simp: numColumns_def)

declare renderColorGroup_rows.simps [simp del]

definition renderColorPreview :: "lib \<Rightarrow> string \<Rightarrow> go_int \<Rightarrow> layout" where
  "renderColorPreview L theme viewportWidth =
     (case toml_UnmarshalScheme L theme of
        Inl e \<Rightarrow> Sprintf [Str ''Error parsing theme: '', Str (Error e)]
      | Inr scheme \<Rightarrow>
          (let contentWidth = viewportWidth - 4;
               boxWidth = go_div (contentWidth - (numColumns - 1) * 2) numColumns;
               normalColors =
                 [(Black (Normal (Colors scheme)), ''Black''),
                  (Red (Normal (Colors scheme)), ''Red''),
                  (Green (Normal (Colors scheme)), ''Green''),
                  (Yellow (Normal (Colors scheme)), ''Yellow''),
                  (Blue (Normal (Colors scheme)), ''Blue''),
                  (Magenta (Normal (Colors scheme)), ''Magenta''),
                  (Cyan (Normal (Colors scheme)), ''Cyan''),
                  (White (Normal (Colors scheme)), ''White'')];
               brightColors =
                 [(Black (Bright (Colors scheme)), ''Bright Black''),
                  (Red (Bright (Colors scheme)), ''Bright Red''),
                  (Green (Bright (Colors scheme)), ''Bright Green''),
                  (Yellow (Bright (Colors scheme)), ''Bright Yellow''),
                  (Blue (Bright (Colors scheme)), ''Bright Blue''),
                  (Magenta (Bright (Colors scheme)), ''Bright Magenta''),
                  (Cyan (Bright (Colors scheme)), ''Bright Cyan''),
                  (White (Bright (Colors scheme)), ''Bright White'')];
               bgfgStyle = [SWidth contentWidth, SPadding 1, SBorder RoundedBorder,
                            SBorderForeground (Color ''69'')];
               bgfg = Render bgfgStyle
                        (JoinHorizontal Center
                           [renderColorBox (Background (Primary (Colors scheme))) ''Background'' boxWidth,
                            Str (replicate 2 CHR '' ''),
                            renderColorBox (Foreground (Primary (Colors scheme))) ''Foreground'' boxWidth]);
               renderColorGroup = (\<lambda>colors heading.
                  Render [SWidth contentWidth, SPadding 1, SBorder RoundedBorder,
                          SBorderForeground (Color ''69'')]
                    (JoinVertical Center
                       (renderColorGroup_rows colors boxWidth 0 [])));
               normal = renderColorGroup normalColors ''Normal Colors'';
               bright = renderColorGroup brightColors ''Bright Colors'';
               titleStyle = [SBold True, SBackground NoColor, SPaddingTop 1,
                             SWidth contentWidth, SAlign Center]
           in JoinVertical Center
                [Render titleStyle (Str ''Theme Preview''),
                 Str [],
                 Render titleStyle (Str ''Background/Foreground Colors''),
                 bgfg,
                 Str [],
                 Render titleStyle (Str ''Normal Colors''),
                 normal,
                 Str [],
                 Render titleStyle (Str ''Bright Colors''),
                 bright]))"



subsection \<open>The selection controller\<close>

definition handleSelection :: "lib \<Rightarrow> filesystem \<Rightarrow> model \<Rightarrow> model \<times> cmd" where
  "handleSelection L fs m =
     (let currentIndex = Index (list m)
      in if lastSelected m = currentIndex \<and> lastSelected m \<noteq> - 1 then (m, Nil)
         else
           (let m = m\<lparr>lastSelected := currentIndex\<rparr>
            in case SelectedItem (list m) of
                 None \<Rightarrow> (m, Nil)
               | Some i \<Rightarrow>
                   if \<not> isDirectory i \<and> HasSuffix (path i) ''.toml'' then
                     (case ReadFile fs (path i) of
                        Inl e \<Rightarrow> (m\<lparr>err := Some e\<rparr>, Nil)
                      | Inr theme \<Rightarrow>
                          (let preview = renderColorPreview L theme (Width (viewport m))
                           in (m\<lparr>viewport := SetContent preview (viewport m)\<rparr>,
                               UpdateConfigCmd (path i))))
                   else (m, Nil)))"

text \<open>The body of the command that \<open>handleSelection\<close> returns.\<close>

definition UpdateConfigCmd_run :: "lib \<Rightarrow> model \<Rightarrow> string \<Rightarrow> filesystem \<Rightarrow> msg \<times> filesystem" where
  "UpdateConfigCmd_run L m p fs =
     (case updateConfig L m p fs of (e, fs') \<Rightarrow> (themeSelectedMsg p e, fs'))"

text \<open>The names bubbletea gives the keys.\<close>

definition KeyCtrlC :: string where "KeyCtrlC = ''ctrl+c''"
definition KeyEnter :: string where "KeyEnter = ''enter''"
definition KeyUp :: string where "KeyUp = ''up''"
definition KeyDown :: string where "KeyDown = ''down''"
definition KeyRight :: string where "KeyRight = ''right''"
definition KeyLeft :: string where "KeyLeft = ''left''"
definition KeyPgUp :: string where "KeyPgUp = ''pgup''"
definition KeyPgDown :: string where "KeyPgDown = ''pgdown''"

text \<open>The end of \<open>Update\<close>: the viewport sees the message, the commands are batched.\<close>

text \<open>
  In the key cases the commands collected before the enter case returns are dropped, as
  in the source; in the case of \<open>/\<close> the call \<open>ShowFilter\<close> only reads the
  widget and its result is discarded.
\<close>

definition Update_viewport :: "lib \<Rightarrow> model \<Rightarrow> msg \<Rightarrow> cmd list \<Rightarrow> model \<times> cmd" where
  "Update_viewport L m ms cmds =
     (case viewport_Update L ms (viewport m) of
        (newViewport, c) \<Rightarrow>
          (let m = m\<lparr>viewport := newViewport\<rparr>;
               cmds = (if c \<noteq> Nil then cmds @ [c] else cmds)
           in (m, Batch cmds)))"

definition Update_key :: "lib \<Rightarrow> filesystem \<Rightarrow> model \<Rightarrow> string \<Rightarrow> (model \<times> cmd) \<times> filesystem" where
  "Update_key L fs m k =
     (if k = KeyCtrlC \<or> k = ''q'' then
        (case restoreConfig m fs of
           (Some e, fs') \<Rightarrow> ((m\<lparr>err := Some e\<rparr>, Quit), fs')
         | (None, fs') \<Rightarrow> ((m, Quit), fs'))
      else if k = KeyEnter then
        (case list_Update L (KeyMsg k) (list m) of
           (newList, c) \<Rightarrow>
             (let m = m\<lparr>list := newList\<rparr>;
                  cmds = [c];
                  (m, c') = handleSelection L fs m;
                  cmds = cmds @ [c']
              in ((m, Quit), fs)))
      else if k = KeyUp \<or> k = KeyDown \<or> k = ''k'' \<or> k = ''j'' then
        (case list_Update L (KeyMsg k) (list m) of
           (newList, c) \<Rightarrow>
             (let m = m\<lparr>list := newList\<rparr>;
                  cmds = [c];
                  (m, c') = handleSelection L fs m;
                  cmds = cmds @ [c']
              in (Update_viewport L m (KeyMsg k) cmds, fs)))
      else if k = KeyRight \<or> k = KeyPgDown \<or> k = ''l'' then
        (let m = m\<lparr>list := list_NextPage L (list m)\<rparr>;
             (m, c') = handleSelection L fs m
         in (Update_viewport L m (KeyMsg k) [c'], fs))
      else if k = KeyLeft \<or> k = KeyPgUp \<or> k = ''h'' then
        (let m = m\<lparr>list := list_PrevPage L (list m)\<rparr>;
             (m, c') = handleSelection L fs m
         in (Update_viewport L m (KeyMsg k) [c'], fs))
      else if k = ''/'' then ((m, Nil), fs)
      else
        (case list_Update L (KeyMsg k) (list m) of
           (newList, c) \<Rightarrow>
             (let m = m\<lparr>list := newList\<rparr>
              in (Update_viewport L m (KeyMsg k) [c], fs))))"

fun Update :: "lib \<Rightarrow> filesystem \<Rightarrow> model \<Rightarrow> msg \<Rightarrow> (model \<times> cmd) \<times> filesystem" where
  "Update L fs m (WindowSizeMsg w h) =
     (let m = m\<lparr>windowSize := (w, h)\<rparr>;
          m = (if \<not> ready m
               then m\<lparr>viewport := viewport_New (go_div w 2) h,
                      list := list_SetHeight L h (list_SetWidth L (go_div w 2) (list m)),
                      ready := True\<rparr>
               else m)
      in (Update_viewport L m (WindowSizeMsg w h) [], fs))"
| "Update L fs m (filesLoadedMsg its e) =
     (case e of
        Some e' \<Rightarrow> ((m\<lparr>err := Some e'\<rparr>, Nil), fs)
      | None \<Rightarrow>
          (let m = m\<lparr>items := its\<rparr>;
               m = m\<lparr>list := list_SetItems L (items m) (list m)\<rparr>;
               (m, c') = handleSelection L fs m
           in (Update_viewport L m (filesLoadedMsg its e) [c'], fs)))"
| "Update L fs m (KeyMsg k) = Update_key L fs m k"
| "Update L fs m ms = (Update_viewport L m ms [], fs)"

subsection \<open>Start-up\<close>

text \<open>
  \<open>Init\<close> has a value receiver and returns only the command: the error that it
  assigns to \<open>m.err\<close> when the file cannot be created is lost.
\<close>

definition Init :: "lib \<Rightarrow> filesystem \<Rightarrow> model \<Rightarrow> cmd \<times> filesystem" where
  "Init L fs m =
     (if (case Stat fs (configFile m) of None \<Rightarrow> False | Some e \<Rightarrow> IsNotExist e) then
        (case Create fs (configFile m) of
           (Some e, fs') \<Rightarrow> (Nil, fs')
         | (None, fs') \<Rightarrow> (LoadFilesCmd (themesDir m), fs'))
      else (LoadFilesCmd (themesDir m), fs))"

text \<open>
  \<open>main\<close> either leaves with an exit code and a printed line, or hands the model to
  the event loop, which calls \<open>Init\<close> first.
\<close>

datatype outcome =
    Exited int string filesystem
  | Running model cmd filesystem

definition main :: "lib \<Rightarrow> environ \<Rightarrow> filesystem \<Rightarrow> outcome" where
  "main L env fs =
     (let m = initialModel env
      in case backupConfig L m fs of
           (m, Some e) \<Rightarrow> Exited 1 ''error: couldn't backup config'' fs
         | (m, None) \<Rightarrow> (case Init L fs m of (c, fs') \<Rightarrow> Running m c fs'))"

subsection \<open>A concrete environment\<close>

text \<open>
  A choice of the library parameters and of the file system, for the concrete inputs at
  which the theorems below are instantiated. The decoder and the encoder are a finite
  excerpt of a TOML codec on the documents that occur there; the widgets move the
  cursor by one entry and have no pages.
\<close>

definition nl :: string where
  "nl = [CHR 0x0A]"

definition example_env :: environ where
  "example_env = [''THEMES_DIR'' \<mapsto> ''/themes'', ''CONFIG_FILE'' \<mapsto> ''/alacritty.toml'']"

definition example_config :: bytes where
  "example_config = ''[general]'' @ nl @ ''live_config_reload = false'' @ nl"

definition example_encoded :: "string \<Rightarrow> bytes" where
  "example_encoded p =
     ''[general]'' @ nl @ ''  import = ['' @ [CHR 0x27] @ p @ [CHR 0x27] @ '']'' @ nl @
     ''  live_config_reload = true'' @ nl"

definition example_encoded_scalar :: "string \<Rightarrow> bytes" where
  "example_encoded_scalar p =
     ''general = 1'' @ nl @
     ''import = ['' @ [CHR 0x27] @ p @ [CHR 0x27] @ '']'' @ nl @
     ''live_config_reload = true'' @ nl"

definition example_Unmarshal :: unmarshal where
  "example_Unmarshal bs =
     (if bs = [] then Inr None
      else if bs = example_config then
        Inr (Some [''general'' \<mapsto> Table [''live_config_reload'' \<mapsto> TBool False]])
      else if bs = example_encoded ''/themes/a.toml'' then
        Inr (Some [''general'' \<mapsto> Table [''import'' \<mapsto> TArray [TString ''/themes/a.toml''],
                                              ''live_config_reload'' \<mapsto> TBool True]])
      else if bs = example_encoded ''/themes/b.toml'' then
        Inr (Some [''general'' \<mapsto> Table [''import'' \<mapsto> TArray [TString ''/themes/b.toml''],
                                              ''live_config_reload'' \<mapsto> TBool True]])
      else if bs = ''general = 1'' @ nl then
        Inr (Some [''general'' \<mapsto> TInteger 1])
      else Inl (DecodeError ''toml: invalid document''))"

definition example_Encode :: encode where
  "example_Encode d =
     (case d ''general'' of
        Some (Table g) \<Rightarrow>
          (case g ''import'' of
             Some (StringSlice [p]) \<Rightarrow> Inr (example_encoded p)
           | _ \<Rightarrow> Inl (EncodeError ''toml: unsupported document''))
      | Some (TInteger n) \<Rightarrow>
          (case d ''import'' of
             Some (StringSlice [p]) \<Rightarrow>
               if n = 1 then Inr (example_encoded_scalar p)
               else Inl (EncodeError ''toml: unsupported document'')
           | _ \<Rightarrow> Inl (EncodeError ''toml: unsupported document''))
      | _ \<Rightarrow> Inl (EncodeError ''toml: unsupported document''))"

definition example_theme :: string where
  "example_theme =
     ''[colors.primary]'' @ nl @
     ''background = '' @ [CHR 0x27] @ ''#1d1f21'' @ [CHR 0x27] @ nl @
     ''foreground = '' @ [CHR 0x27] @ ''#c5c8c6'' @ [CHR 0x27] @ nl"

definition example_scheme :: ColorScheme where
  "example_scheme =
     \<lparr>Colors =
        \<lparr>Primary = \<lparr>Background = ''#1d1f21'', Foreground = ''#c5c8c6''\<rparr>,
         Normal = \<lparr>Black = [], Red = [], Green = [], Yellow = [],
                   Blue = [], Magenta = [], Cyan = [], White = []\<rparr>,
         Bright = \<lparr>Black = [], Red = [], Green = [], Yellow = [],
                   Blue = [], Magenta = [], Cyan = [], White = []\<rparr>\<rparr>\<rparr>"

definition example_UnmarshalScheme :: "string \<Rightarrow> error + ColorScheme" where
  "example_UnmarshalScheme s =
     (if s = example_theme then Inr example_scheme
      else Inl (DecodeError ''toml: invalid document''))"

definition example_Dir :: "string \<Rightarrow> string" where
  "example_Dir p =
     (let d = rev (tl (dropWhile (\<lambda>c. c \<noteq> CHR ''/'') (rev p)))
      in if d = [] then ''/'' else d)"

definition example_list_Update :: "msg \<Rightarrow> list_model \<Rightarrow> list_model \<times> cmd" where
  "example_list_Update ms l =
     (case ms of
        KeyMsg k \<Rightarrow>
          if k = ''down'' \<or> k = ''j'' then
            (if cursor l + 1 < length (VisibleItems l) then l\<lparr>cursor := cursor l + 1\<rparr> else l, Nil)
          else if k = ''up'' \<or> k = ''k'' then (l\<lparr>cursor := cursor l - 1\<rparr>, Nil)
          else (l, Nil)
      | _ \<Rightarrow> (l, Nil))"

definition example_lib :: lib where
  "example_lib =
     \<lparr>toml_Unmarshal = example_Unmarshal,
      toml_UnmarshalScheme = example_UnmarshalScheme,
      toml_Encode = example_Encode,
      filepath_Dir = example_Dir,
      filepath_Join = (\<lambda>d n. d @ ''/'' @ n),
      list_SetItems = (\<lambda>its l. l\<lparr>VisibleItems := its\<rparr>),
      list_SetWidth = (\<lambda>w l. l),
      list_SetHeight = (\<lambda>h l. l),
      list_Update = example_list_Update,
      list_NextPage = (\<lambda>l. l),
      list_PrevPage = (\<lambda>l. l),
      viewport_Update = (\<lambda>ms v. (v, Nil))\<rparr>"

definition example_entries :: "DirEntry list" where
  "example_entries =
     [\<lparr>Name = ''README.md'', IsDir = False\<rparr>,
      \<lparr>Name = ''a.toml'', IsDir = False\<rparr>,
      \<lparr>Name = ''b.toml'', IsDir = False\<rparr>,
      \<lparr>Name = ''dark'', IsDir = True\<rparr>]"

definition example_fs :: filesystem where
  "example_fs =
     \<lparr>nodes = [''/alacritty.toml'' \<mapsto> File example_config,
               ''/themes'' \<mapsto> Directory example_entries,
               ''/themes/a.toml'' \<mapsto> File example_theme,
               ''/themes/b.toml'' \<mapsto> File ''='',
               ''/themes/dark'' \<mapsto> Directory [\<lparr>Name = ''notes.txt'', IsDir = False\<rparr>]],
      unreadable = {},
      unwritable = {}\<rparr>"

text \<open>The same file system with a configuration file that is not TOML.\<close>

definition example_fs_invalid :: filesystem where
  "example_fs_invalid =
     example_fs\<lparr>nodes := (nodes example_fs)(''/alacritty.toml'' \<mapsto> File ''='')\<rparr>"

text \<open>The same file system with a configuration file whose \<open>general\<close> is a number.\<close>

definition example_fs_scalar :: filesystem where
  "example_fs_scalar =
     example_fs\<lparr>nodes := (nodes example_fs)(''/alacritty.toml'' \<mapsto> File (''general = 1'' @ nl))\<rparr>"

text \<open>The model after the backup of \<open>example_fs\<close>.\<close>

definition example_model :: model where
  "example_model =
     (initialModel example_env)
       \<lparr>originalToml := example_config,
        tomlBackup := Some [''general'' \<mapsto> Table [''live_config_reload'' \<mapsto> TBool False]]\<rparr>"

text \<open>The entries that the lister shows for \<open>/themes\<close>, and the model once they are loaded.\<close>

definition example_items :: "item list" where
  "example_items =
     [\<lparr>title = ''a.toml'', path = ''/themes/a.toml'', isDirectory = False\<rparr>,
      \<lparr>title = ''b.toml'', path = ''/themes/b.toml'', isDirectory = False\<rparr>,
      \<lparr>title = ''dark'', path = ''/themes/dark'', isDirectory = True\<rparr>]"

definition example_listed :: model where
  "example_listed =
     example_model\<lparr>items := example_items,
                   list := \<lparr>VisibleItems = example_items, cursor = 0\<rparr>\<rparr>"

text \<open>The same model with the directory \<open>dark\<close> highlighted and already evaluated.\<close>

definition example_on_dir :: model where
  "example_on_dir =
     example_listed\<lparr>list := \<lparr>VisibleItems = example_items, cursor = 2\<rparr>,
                    ready := True,
                    lastSelected := 2\<rparr>"

text \<open>The same file system without the configuration file.\<close>

definition example_fs_missing :: filesystem where
  "example_fs_missing =
     example_fs\<lparr>nodes := (nodes example_fs)(''/alacritty.toml'' := None)\<rparr>"

section \<open>Properties\<close>

subsection \<open>Backup, patch and restore\<close>

lemma WriteFile_keeps:
  "nodes fs p = Some (File c) \<Longrightarrow>
   (\<exists>c'. nodes (snd (WriteFile fs p bs)) p = Some (File c')) \<and>
   unwritable (snd (WriteFile fs p bs)) = unwritable fs"
  by (simp add: WriteFile_def)

lemma updateConfig_keeps:
  "nodes fs (configFile m) = Some (File c) \<Longrightarrow>
   (\<exists>c'. nodes (snd (updateConfig L m p fs)) (configFile m) = Some (File c')) \<and>
   unwritable (snd (updateConfig L m p fs)) = unwritable fs"
  using WriteFile_keeps [of fs "configFile m" c]
  by (simp add: updateConfig_def Let_def split: sum.splits)

lemma applySelections_keeps:
  "nodes fs (configFile m) = Some (File c) \<Longrightarrow>
   (\<exists>c'. nodes (applySelections L m ps fs) (configFile m) = Some (File c')) \<and>
   unwritable (applySelections L m ps fs) = unwritable fs"
proof (induction ps arbitrary: fs c)
  case Nil
  then show ?case by simp
next
  case (Cons p ps)
  from updateConfig_keeps [OF Cons.prems, of L p]
  obtain c' where c': "nodes (snd (updateConfig L m p fs)) (configFile m) = Some (File c')"
    and u: "unwritable (snd (updateConfig L m p fs)) = unwritable fs"
    by blast
  from Cons.IH [OF c'] u show ?case by simp
qed

lemma backupConfig_ok:
  assumes "backupConfig L m fs = (m1, None)"
  shows "\<exists>c. nodes fs (configFile m) = Some (File c) \<and> ReadFile fs (configFile m) = Inr c \<and>
             originalToml m1 = c \<and> configFile m1 = configFile m"
  using assms
  by (auto simp: backupConfig_def ReadFile_def split: sum.splits option.splits node.splits if_splits)

text \<open>
  Claim C1. After a successful backup at start-up and the patches for any sequence of
  selected paths (failed patches included), \<open>restoreConfig\<close> writes to the
  configuration file exactly the bytes that \<open>backupConfig\<close> read, and a second
  restore leaves the file system as the first one did. The configuration file is
  assumed writable: a write that the operating system refuses changes nothing.
\<close>
theorem restoreConfig_original:
  assumes "backupConfig L m fs0 = (m1, None)" and "configFile m \<notin> unwritable fs0"
  shows "\<exists>original. ReadFile fs0 (configFile m) = Inr original \<and>
           (\<forall>ps. let fs = applySelections L m1 ps fs0;
                     restored = fs\<lparr>nodes := (nodes fs)(configFile m \<mapsto> File original)\<rparr>
                 in restoreConfig m1 fs = (None, restored) \<and>
                    restoreConfig m1 restored = (None, restored))"
proof -
  from backupConfig_ok [OF assms(1)] obtain c where
    c: "nodes fs0 (configFile m) = Some (File c)" "ReadFile fs0 (configFile m) = Inr c"
       "originalToml m1 = c" "configFile m1 = configFile m"
    by blast
  have "restoreConfig m1 fs = (None, fs\<lparr>nodes := (nodes fs)(configFile m \<mapsto> File c)\<rparr>) \<and>
        restoreConfig m1 (fs\<lparr>nodes := (nodes fs)(configFile m \<mapsto> File c)\<rparr>)
          = (None, fs\<lparr>nodes := (nodes fs)(configFile m \<mapsto> File c)\<rparr>)"
    if "fs = applySelections L m1 ps fs0" for fs ps
  proof -
    from c(1,4) have "nodes fs0 (configFile m1) = Some (File c)" by simp
    from applySelections_keeps [OF this, of L ps] that c(4) assms(2)
    obtain c' where "nodes fs (configFile m) = Some (File c')" "configFile m \<notin> unwritable fs"
      by auto
    then show ?thesis
      by (simp add: restoreConfig_def WriteFile_def c(3,4))
  qed
  with c(2) show ?thesis by (auto simp: Let_def)
qed


lemma importOf_setImport: "importOf (setImport config p) = Some (StringSlice [p])"
proof (cases "config ''general''")
  case None
  then show ?thesis by (simp add: importOf_def setImport_def)
next
  case (Some v)
  then show ?thesis by (cases v) (simp_all add: importOf_def setImport_def)
qed

lemma setImport_absorb: "setImport (setImport config p1) p2 = setImport config p2"
proof (cases "config ''general''")
  case None
  then show ?thesis by (simp add: setImport_def)
next
  case (Some v)
  then show ?thesis by (cases v) (simp_all add: setImport_def)
qed

lemma updateConfig_ok:
  assumes "updateConfig L m p fs = (None, fs')"
  shows "\<exists>bs parsed buf.
           ReadFile fs (configFile m) = Inr bs \<and> toml_Unmarshal L bs = Inr parsed \<and>
           toml_Encode L (setImport (case parsed of None \<Rightarrow> Map.empty | Some d \<Rightarrow> d) p) = Inr buf \<and>
           WriteFile fs (configFile m) buf = (None, fs')"
  using assms by (auto simp: updateConfig_def Let_def split: sum.splits)

lemma WriteFile_None:
  "WriteFile fs p bs = (None, fs') \<Longrightarrow> nodes fs' p = Some (File bs)"
  by (auto simp: WriteFile_def split: option.splits node.splits if_splits)

text \<open>
  Claim C3. When a selection of \<open>p1\<close> and then a selection of a different path
  \<open>p2\<close> are applied, the document written by the second patch holds the import
  list \<open>[p2]\<close>, which does not contain \<open>p1\<close>; on documents, a second patch
  erases every trace of the first.
\<close>
theorem updateConfig_twice:
  assumes "p1 \<noteq> p2"
    and "updateConfig L m p1 fs0 = (None, fs1)"
    and "updateConfig L m p2 fs1 = (None, fs2)"
  shows "(\<exists>config buf. nodes fs2 (configFile m) = Some (File buf) \<and>
                       toml_Encode L config = Inr buf \<and>
                       importOf config = Some (StringSlice [p2]) \<and> p1 \<notin> set [p2]) \<and>
         (\<forall>config. setImport (setImport config p1) p2 = setImport config p2)"
proof -
  from updateConfig_ok [OF assms(3)] obtain parsed buf where
    e: "toml_Encode L (setImport (case parsed of None \<Rightarrow> Map.empty | Some d \<Rightarrow> d) p2) = Inr buf"
    and w: "WriteFile fs1 (configFile m) buf = (None, fs2)"
    by blast
  from WriteFile_None [OF w] e importOf_setImport assms(1)
  have "\<exists>config buf. nodes fs2 (configFile m) = Some (File buf) \<and>
                       toml_Encode L config = Inr buf \<and>
                       importOf config = Some (StringSlice [p2]) \<and> p1 \<notin> set [p2]"
    by fastforce
  then show ?thesis by (simp add: setImport_absorb)
qed


text \<open>
  Claim C10. When the top-level key \<open>general\<close> exists and its value is not a table,
  \<open>updateConfig\<close> encodes and writes the document with \<open>live_config_reload\<close> and
  \<open>import\<close> set at top level and \<open>general\<close> unchanged; the value of
  \<open>general\<close> causes no error of its own.
\<close>
theorem updateConfig_general_not_table:
  assumes "ReadFile fs (configFile m) = Inr bs"
    and "toml_Unmarshal L bs = Inr (Some config)"
    and "config ''general'' = Some v"
    and "\<forall>general. v \<noteq> Table general"
  shows "let patched = config(''live_config_reload'' \<mapsto> TBool True,
                              ''import'' \<mapsto> StringSlice [p])
         in updateConfig L m p fs =
              (case toml_Encode L patched of
                 Inl e \<Rightarrow> (Some e, fs)
               | Inr buf \<Rightarrow> WriteFile fs (configFile m) buf) \<and>
            patched ''general'' = Some v \<and>
            patched ''live_config_reload'' = Some (TBool True) \<and>
            patched ''import'' = Some (StringSlice [p])"
proof -
  from assms(3,4) have "setImport config p =
      config(''live_config_reload'' \<mapsto> TBool True, ''import'' \<mapsto> StringSlice [p])"
    by (cases v) (simp_all add: setImport_def)
  with assms(1,2,3) show ?thesis
    by (simp add: updateConfig_def Let_def)
qed

text \<open>
  Claim C4, amended. When the read of the configuration file succeeds, a parse error is
  returned to the caller and the model is left as it was: the bytes read are not stored.
  They are stored, with the parsed document, exactly when the parse succeeds as well.
\<close>
theorem backupConfig_parse:
  assumes "ReadFile fs (configFile m) = Inr bs"
  shows "(\<forall>e. toml_Unmarshal L bs = Inl e \<longrightarrow> backupConfig L m fs = (m, Some e)) \<and>
         (\<forall>parsed. toml_Unmarshal L bs = Inr parsed \<longrightarrow>
            backupConfig L m fs = (m\<lparr>originalToml := bs, tomlBackup := parsed\<rparr>, None))"
  using assms by (simp add: backupConfig_def)


subsection \<open>The configuration theorems at the example\<close>

lemmas example_defs =
  example_lib_def example_fs_def example_env_def example_config_def example_encoded_def
  example_Unmarshal_def example_Encode_def nl_def initialModel_def Getenv_def
  example_model_def example_fs_invalid_def example_fs_scalar_def

text \<open>Claim C1 at the example: backup, two patches, restore.\<close>
theorem restoreConfig_original_witness:
  "backupConfig example_lib (initialModel example_env) example_fs = (example_model, None) \<and>
   configFile (initialModel example_env) \<notin> unwritable example_fs \<and>
   nodes (snd (restoreConfig example_model
            (applySelections example_lib example_model [''/themes/a.toml'', ''/themes/b.toml'']
               example_fs))) ''/alacritty.toml'' = Some (File example_config)"
proof -
  have h1: "backupConfig example_lib (initialModel example_env) example_fs = (example_model, None)"
    by (simp add: backupConfig_def ReadFile_def example_defs)
  have h2: "configFile (initialModel example_env) \<notin> unwritable example_fs"
    by (simp add: example_defs)
  have r: "ReadFile example_fs (configFile (initialModel example_env)) = Inr example_config"
    by (simp add: ReadFile_def example_defs)
  have c: "configFile (initialModel example_env) = ''/alacritty.toml''"
    by (simp add: example_defs)
  from restoreConfig_original [OF h1 h2] r c
  have "\<forall>ps. restoreConfig example_model (applySelections example_lib example_model ps example_fs) =
          (None, (applySelections example_lib example_model ps example_fs)
                   \<lparr>nodes := (nodes (applySelections example_lib example_model ps example_fs))
                               (''/alacritty.toml'' \<mapsto> File example_config)\<rparr>)"
    by (auto simp: Let_def)
  then have "nodes (snd (restoreConfig example_model
            (applySelections example_lib example_model [''/themes/a.toml'', ''/themes/b.toml'']
               example_fs))) ''/alacritty.toml'' = Some (File example_config)"
    by (simp del: applySelections.simps)
  with h1 h2 show ?thesis by blast
qed



text \<open>Claim C3 at the example: \<open>a.toml\<close> is selected, then \<open>b.toml\<close>.\<close>
theorem updateConfig_twice_witness:
  "''/themes/a.toml'' \<noteq> ''/themes/b.toml'' \<and>
   updateConfig example_lib example_model ''/themes/a.toml'' example_fs =
     (None, example_fs\<lparr>nodes := (nodes example_fs)
                (''/alacritty.toml'' \<mapsto> File (example_encoded ''/themes/a.toml''))\<rparr>) \<and>
   updateConfig example_lib example_model ''/themes/b.toml''
     (example_fs\<lparr>nodes := (nodes example_fs)
                (''/alacritty.toml'' \<mapsto> File (example_encoded ''/themes/a.toml''))\<rparr>) =
     (None, example_fs\<lparr>nodes := (nodes example_fs)
                (''/alacritty.toml'' \<mapsto> File (example_encoded ''/themes/b.toml''))\<rparr>) \<and>
   (\<exists>config. toml_Encode example_lib config = Inr (example_encoded ''/themes/b.toml'') \<and>
             importOf config = Some (StringSlice [''/themes/b.toml'']))"
proof -
  have h1: "''/themes/a.toml'' \<noteq> ''/themes/b.toml''" by simp
  have h2: "updateConfig example_lib example_model ''/themes/a.toml'' example_fs =
     (None, example_fs\<lparr>nodes := (nodes example_fs)
                (''/alacritty.toml'' \<mapsto> File (example_encoded ''/themes/a.toml''))\<rparr>)"
    by (simp add: updateConfig_def ReadFile_def WriteFile_def setImport_def example_defs)
  have h3: "updateConfig example_lib example_model ''/themes/b.toml''
     (example_fs\<lparr>nodes := (nodes example_fs)
                (''/alacritty.toml'' \<mapsto> File (example_encoded ''/themes/a.toml''))\<rparr>) =
     (None, example_fs\<lparr>nodes := (nodes example_fs)
                (''/alacritty.toml'' \<mapsto> File (example_encoded ''/themes/b.toml''))\<rparr>)"
    by (simp add: updateConfig_def ReadFile_def WriteFile_def setImport_def example_defs)
  have c: "configFile example_model = ''/alacritty.toml''"
    by (simp add: example_defs)
  from updateConfig_twice [OF h1 h2 h3] c
  have "\<exists>config. toml_Encode example_lib config = Inr (example_encoded ''/themes/b.toml'') \<and>
             importOf config = Some (StringSlice [''/themes/b.toml''])"
    by auto
  with h1 h2 h3 show ?thesis by blast
qed

text \<open>Claim C10 at a configuration file that reads \<open>general = 1\<close>.\<close>
theorem updateConfig_general_not_table_witness:
  "ReadFile example_fs_scalar (configFile example_model) = Inr (''general = 1'' @ nl) \<and>
   toml_Unmarshal example_lib (''general = 1'' @ nl) = Inr (Some [''general'' \<mapsto> TInteger 1]) \<and>
   [''general'' \<mapsto> TInteger 1] ''general'' = Some (TInteger 1) \<and>
   (\<forall>general. TInteger 1 \<noteq> Table general) \<and>
   fst (updateConfig example_lib example_model ''/themes/a.toml'' example_fs_scalar) = None \<and>
   nodes (snd (updateConfig example_lib example_model ''/themes/a.toml'' example_fs_scalar))
     ''/alacritty.toml'' =
     Some (File (example_encoded_scalar ''/themes/a.toml''))"
proof -
  have h1: "ReadFile example_fs_scalar (configFile example_model) = Inr (''general = 1'' @ nl)"
    by (simp add: ReadFile_def example_defs)
  have h2: "toml_Unmarshal example_lib (''general = 1'' @ nl) = Inr (Some [''general'' \<mapsto> TInteger 1])"
    by (simp add: example_defs)
  have h3: "[''general'' \<mapsto> TInteger 1] ''general'' = Some (TInteger 1)" by simp
  have h4: "\<forall>general. TInteger 1 \<noteq> Table general" by simp
  have e: "toml_Encode example_lib
             ([''general'' \<mapsto> TInteger 1](''live_config_reload'' \<mapsto> TBool True,
                ''import'' \<mapsto> StringSlice [''/themes/a.toml'']))
           = Inr (example_encoded_scalar ''/themes/a.toml'')"
    by (simp add: example_lib_def example_Encode_def)
  have w: "WriteFile example_fs_scalar (configFile example_model) buf =
             (None, example_fs_scalar\<lparr>nodes := (nodes example_fs_scalar)(''/alacritty.toml'' \<mapsto> File buf)\<rparr>)"
    for buf
    by (simp add: WriteFile_def example_defs)
  note t = updateConfig_general_not_table [OF h1 h2 h3 h4, of "''/themes/a.toml''", unfolded Let_def]
  from t have "updateConfig example_lib example_model ''/themes/a.toml'' example_fs_scalar =
     (case toml_Encode example_lib
             ([''general'' \<mapsto> TInteger 1](''live_config_reload'' \<mapsto> TBool True,
                ''import'' \<mapsto> StringSlice [''/themes/a.toml''])) of
        Inl e \<Rightarrow> (Some e, example_fs_scalar)
      | Inr buf \<Rightarrow> WriteFile example_fs_scalar (configFile example_model) buf)"
    by (rule conjunct1)
  then have "updateConfig example_lib example_model ''/themes/a.toml'' example_fs_scalar =
          (None, example_fs_scalar\<lparr>nodes := (nodes example_fs_scalar)(''/alacritty.toml'' \<mapsto>
             File (example_encoded_scalar ''/themes/a.toml''))\<rparr>)"
    by (simp only: e w sum.case)
  with h1 h2 h3 h4 show ?thesis by simp
qed

text \<open>
  Claim C4 as stated fails: the configuration file holds the single byte \<open>=\<close>, the
  read succeeds, the parse fails, and the model does not hold the bytes read.
\<close>
theorem backupConfig_retains_counterexample:
  "ReadFile example_fs_invalid (configFile (initialModel example_env)) = Inr ''='' \<and>
   toml_Unmarshal example_lib ''='' = Inl (DecodeError ''toml: invalid document'') \<and>
   snd (backupConfig example_lib (initialModel example_env) example_fs_invalid) =
     Some (DecodeError ''toml: invalid document'') \<and>
   originalToml (fst (backupConfig example_lib (initialModel example_env) example_fs_invalid)) \<noteq> ''=''"
  by (simp add: backupConfig_def ReadFile_def example_defs)

text \<open>Claim C4, amended, at a file that does not parse and at one that does.\<close>
theorem backupConfig_parse_witness:
  "ReadFile example_fs_invalid (configFile (initialModel example_env)) = Inr ''='' \<and>
   toml_Unmarshal example_lib ''='' = Inl (DecodeError ''toml: invalid document'') \<and>
   backupConfig example_lib (initialModel example_env) example_fs_invalid =
     (initialModel example_env, Some (DecodeError ''toml: invalid document'')) \<and>
   originalToml (initialModel example_env) = [] \<and>
   ReadFile example_fs (configFile (initialModel example_env)) = Inr example_config \<and>
   toml_Unmarshal example_lib example_config =
     Inr (Some [''general'' \<mapsto> Table [''live_config_reload'' \<mapsto> TBool False]]) \<and>
   backupConfig example_lib (initialModel example_env) example_fs = (example_model, None)"
proof -
  have h1: "ReadFile example_fs_invalid (configFile (initialModel example_env)) = Inr ''=''"
    by (simp add: ReadFile_def example_defs)
  have h2: "toml_Unmarshal example_lib ''='' = Inl (DecodeError ''toml: invalid document'')"
    by (simp add: example_defs)
  have h3: "ReadFile example_fs (configFile (initialModel example_env)) = Inr example_config"
    by (simp add: ReadFile_def example_defs)
  have h4: "toml_Unmarshal example_lib example_config =
     Inr (Some [''general'' \<mapsto> Table [''live_config_reload'' \<mapsto> TBool False]])"
    by (simp add: example_defs)
  have m: "(initialModel example_env)\<lparr>originalToml := example_config,
      tomlBackup := Some [''general'' \<mapsto> Table [''live_config_reload'' \<mapsto> TBool False]]\<rparr> = example_model"
    by (simp add: example_model_def)
  have o: "originalToml (initialModel example_env) = []"
    by (simp add: initialModel_def)
  from backupConfig_parse [OF h1, of example_lib] h2
  have a: "backupConfig example_lib (initialModel example_env) example_fs_invalid =
     (initialModel example_env, Some (DecodeError ''toml: invalid document''))"
    by blast
  from backupConfig_parse [OF h3, of example_lib] h4 m
  have b: "backupConfig example_lib (initialModel example_env) example_fs = (example_model, None)"
    by simp
  from h1 h2 h3 h4 a b o show ?thesis by blast
qed

subsection \<open>The directory lister\<close>

lemma loadFiles_range_eq:
  "loadFiles_range L dir files its =
     its @ map (\<lambda>file. \<lparr>title = Name file, path = filepath_Join L dir (Name file),
                         isDirectory = IsDir file\<rparr>)
               (filter (\<lambda>file. IsDir file \<or> HasSuffix (Name file) ''.toml'') files)"
  by (induction files arbitrary: its) (simp_all add: Let_def)

text \<open>
  Claim C7. Listing a directory that cannot be read yields the error and no entries.
  Otherwise it yields, in this order: the entry \<open>..\<close> for the parent directory,
  present exactly when the directory differs (as a string) from the value of
  \<open>THEMES_DIR\<close>; then one entry, in the order of the directory read, for each child
  that is a directory or whose name ends in \<open>.toml\<close>, and none for any other child.
\<close>
theorem loadFiles_entries:
  "loadFiles L env fs dir =
     (case ReadDir fs dir of
        Inl e \<Rightarrow> filesLoadedMsg [] (Some e)
      | Inr files \<Rightarrow>
          filesLoadedMsg
            ((if dir = Getenv env ''THEMES_DIR'' then []
              else [\<lparr>title = ''..'', path = filepath_Dir L dir, isDirectory = True\<rparr>]) @
             map (\<lambda>file. \<lparr>title = Name file, path = filepath_Join L dir (Name file),
                           isDirectory = IsDir file\<rparr>)
                 (filter (\<lambda>file. IsDir file \<or> HasSuffix (Name file) ''.toml'') files))
            None)"
  by (simp add: loadFiles_def loadFiles_range_eq Let_def split: sum.splits)

text \<open>Claim C7 at the root of the example, at a subdirectory and at a missing directory.\<close>
theorem loadFiles_entries_witness:
  "loadFiles example_lib example_env example_fs ''/themes'' = filesLoadedMsg example_items None \<and>
   loadFiles example_lib example_env example_fs ''/themes/dark'' =
     filesLoadedMsg [\<lparr>title = ''..'', path = ''/themes'', isDirectory = True\<rparr>] None \<and>
   loadFiles example_lib example_env example_fs ''/nowhere'' =
     filesLoadedMsg [] (Some (ENOENT ''/nowhere''))"
proof -
  have d: "ReadDir example_fs ''/themes'' = Inr example_entries"
      "ReadDir example_fs ''/themes/dark'' = Inr [\<lparr>Name = ''notes.txt'', IsDir = False\<rparr>]"
      "ReadDir example_fs ''/nowhere'' = Inl (ENOENT ''/nowhere'')"
    by (simp_all add: ReadDir_def example_fs_def)
  have g: "Getenv example_env ''THEMES_DIR'' = ''/themes''"
    by (simp add: Getenv_def example_env_def)
  show ?thesis
    using loadFiles_entries [of example_lib example_env example_fs "''/themes''"]
      loadFiles_entries [of example_lib example_env example_fs "''/themes/dark''"]
      loadFiles_entries [of example_lib example_env example_fs "''/nowhere''"]
    by (simp add: d g example_entries_def example_items_def HasSuffix_def example_lib_def
        example_Dir_def)
qed

subsection \<open>The preview renderer\<close>










subsection \<open>The selection controller\<close>

text \<open>
  Claim C8. An evaluation at the index recorded by the previous evaluation returns no
  command and leaves the model, and with it the preview, unchanged. Every evaluation
  records the index it saw, so this holds for each evaluation of a sequence whose index
  equals that of the one before. The initial model records no selection (\<open>- 1\<close>), and
  the first evaluation on a readable theme file renders the preview and returns the
  patch command whatever the index is.
\<close>
theorem handleSelection_debounce:
  "(lastSelected m = Index (list m) \<longrightarrow> handleSelection L fs m = (m, Nil)) \<and>
   lastSelected (fst (handleSelection L fs m)) = Index (list m) \<and>
   (\<forall>fs' m'. lastSelected m' = lastSelected (fst (handleSelection L fs m)) \<and>
             Index (list m') = Index (list m) \<longrightarrow>
             handleSelection L fs' m' = (m', Nil)) \<and>
   lastSelected (initialModel env) = - 1 \<and>
   (\<forall>i theme. lastSelected m = - 1 \<and> SelectedItem (list m) = Some i \<and>
        \<not> isDirectory i \<and> HasSuffix (path i) ''.toml'' \<and> ReadFile fs (path i) = Inr theme \<longrightarrow>
        handleSelection L fs m =
          (m\<lparr>lastSelected := Index (list m),
             viewport := SetContent (renderColorPreview L theme (Width (viewport m))) (viewport m)\<rparr>,
           UpdateConfigCmd (path i)))"
proof -
  have nn: "Index l \<noteq> - 1" for l by (simp add: Index_def)
  have a: "lastSelected m = Index (list m) \<Longrightarrow> handleSelection L fs m = (m, Nil)" for m fs
    using nn [of "list m"] by (simp add: handleSelection_def Let_def)
  have b: "lastSelected (fst (handleSelection L fs m)) = Index (list m)"
    by (simp add: handleSelection_def Let_def split: option.splits sum.splits)
  have c: "lastSelected (initialModel env) = - 1"
    by (simp add: initialModel_def)
  have d: "handleSelection L fs m =
          (m\<lparr>lastSelected := Index (list m),
             viewport := SetContent (renderColorPreview L theme (Width (viewport m))) (viewport m)\<rparr>,
           UpdateConfigCmd (path i))"
    if "lastSelected m = - 1" "SelectedItem (list m) = Some i" "\<not> isDirectory i"
       "HasSuffix (path i) ''.toml''" "ReadFile fs (path i) = Inr theme" for i theme
    using that nn [of "list m"] by (simp add: handleSelection_def Let_def)
  from a b c d show ?thesis by (simp add: a)
qed


text \<open>Claim C8 at the example: the first evaluation at index 0, then a second one.\<close>
theorem handleSelection_debounce_witness:
  "lastSelected example_listed = - 1 \<and>
   SelectedItem (list example_listed) =
     Some \<lparr>title = ''a.toml'', path = ''/themes/a.toml'', isDirectory = False\<rparr> \<and>
   HasSuffix ''/themes/a.toml'' ''.toml'' \<and>
   ReadFile example_fs ''/themes/a.toml'' = Inr example_theme \<and>
   handleSelection example_lib example_fs example_listed =
     (example_listed\<lparr>lastSelected := 0,
        viewport := SetContent (renderColorPreview example_lib example_theme 0)
                      (viewport example_listed)\<rparr>,
      UpdateConfigCmd ''/themes/a.toml'') \<and>
   handleSelection example_lib example_fs (fst (handleSelection example_lib example_fs example_listed)) =
     (fst (handleSelection example_lib example_fs example_listed), Nil)"
proof -
  let ?a = "\<lparr>title = ''a.toml'', path = ''/themes/a.toml'', isDirectory = False\<rparr>"
  have h1: "lastSelected example_listed = - 1"
    by (simp add: example_listed_def example_model_def initialModel_def)
  have h2: "SelectedItem (list example_listed) = Some ?a"
    by (simp add: SelectedItem_def example_listed_def example_items_def)
  have h3: "\<not> isDirectory ?a" by simp
  have h4: "HasSuffix (path ?a) ''.toml''" by (simp add: HasSuffix_def)
  have h5: "ReadFile example_fs (path ?a) = Inr example_theme"
    by (simp add: ReadFile_def example_fs_def)
  have i: "Index (list example_listed) = 0"
    by (simp add: Index_def example_listed_def)
  have w: "Width (viewport example_listed) = 0"
    by (simp add: example_listed_def example_model_def initialModel_def viewport_New_def)
  note t = handleSelection_debounce [of example_listed example_lib example_fs example_env]
  from t h1 h2 h3 h4 h5 have first:
    "handleSelection example_lib example_fs example_listed =
     (example_listed\<lparr>lastSelected := Index (list example_listed),
        viewport := SetContent (renderColorPreview example_lib example_theme
                      (Width (viewport example_listed))) (viewport example_listed)\<rparr>,
      UpdateConfigCmd (path ?a))"
    by blast
  let ?m1 = "fst (handleSelection example_lib example_fs example_listed)"
  have l: "lastSelected ?m1 = Index (list ?m1)"
    by (simp add: first)
  from handleSelection_debounce [of ?m1 example_lib example_fs example_env] l
  have second: "handleSelection example_lib example_fs ?m1 = (?m1, Nil)"
    by blast
  from h1 h2 h4 h5 first second i w show ?thesis by simp
qed

text \<open>
  Claim C5. With the directory \<open>dark\<close> highlighted, the enter key makes
  \<open>Update\<close> return the quit command, with the entries and the file system as they
  were: no listing of the directory is requested. For every model the enter key
  returns the quit command and leaves the loaded entries unchanged.
\<close>
theorem Update_enter_on_directory:
  "SelectedItem (list example_on_dir) =
     Some \<lparr>title = ''dark'', path = ''/themes/dark'', isDirectory = True\<rparr> \<and>
   Update example_lib example_fs example_on_dir (KeyMsg KeyEnter) =
     ((example_on_dir, Quit), example_fs) \<and>
   (\<forall>L fs m. snd (fst (Update L fs m (KeyMsg KeyEnter))) = Quit \<and>
             snd (Update L fs m (KeyMsg KeyEnter)) = fs \<and>
             items (fst (fst (Update L fs m (KeyMsg KeyEnter)))) = items m)"
proof -
  have a: "SelectedItem (list example_on_dir) =
     Some \<lparr>title = ''dark'', path = ''/themes/dark'', isDirectory = True\<rparr>"
    by (simp add: SelectedItem_def example_on_dir_def example_items_def)
  have i: "lastSelected example_on_dir = Index (list example_on_dir)"
    by (simp add: Index_def example_on_dir_def)
  have u: "list_Update example_lib (KeyMsg KeyEnter) (list example_on_dir) = (list example_on_dir, Nil)"
    by (simp add: example_lib_def example_list_Update_def KeyEnter_def)
  have h: "handleSelection example_lib example_fs example_on_dir = (example_on_dir, Nil)"
    using i by (simp add: handleSelection_def Let_def Index_def)
  have b: "Update example_lib example_fs example_on_dir (KeyMsg KeyEnter) =
     ((example_on_dir, Quit), example_fs)"
    by (simp add: Update_key_def u h KeyEnter_def KeyCtrlC_def Let_def)
       (simp add: KeyEnter_def [symmetric] u h)
  have l: "items (fst (handleSelection L fs m)) = items m" for L fs m
    by (simp add: handleSelection_def Let_def split: option.splits sum.splits)
  have c: "snd (fst (Update L fs m (KeyMsg KeyEnter))) = Quit \<and>
           snd (Update L fs m (KeyMsg KeyEnter)) = fs \<and>
           items (fst (fst (Update L fs m (KeyMsg KeyEnter)))) = items m" for L fs m
  proof -
    obtain newList c0 where u: "list_Update L (KeyMsg ''enter'') (list m) = (newList, c0)"
      by (cases "list_Update L (KeyMsg ''enter'') (list m)")
    obtain m' c' where h: "handleSelection L fs (m\<lparr>list := newList\<rparr>) = (m', c')"
      by (cases "handleSelection L fs (m\<lparr>list := newList\<rparr>)")
    from l [of L fs "m\<lparr>list := newList\<rparr>"] h have "items m' = items m" by simp
    with u h show ?thesis
      by (simp add: Update_key_def KeyEnter_def KeyCtrlC_def Let_def)
  qed
  from a b c show ?thesis by blast
qed

subsection \<open>Start-up\<close>

text \<open>
  Claim C6. When the configuration file does not exist, \<open>main\<close> leaves with exit
  code 1 after the failed backup, and the file system is unchanged: the file is not
  created. \<open>Init\<close>, which the event loop would call, does create the empty file.
\<close>
theorem main_without_config:
  "Stat example_fs_missing (Getenv example_env ''CONFIG_FILE'') = Some (ENOENT ''/alacritty.toml'') \<and>
   main example_lib example_env example_fs_missing =
     Exited 1 ''error: couldn't backup config'' example_fs_missing \<and>
   Init example_lib example_fs_missing (initialModel example_env) =
     (LoadFilesCmd ''/themes'',
      example_fs_missing\<lparr>nodes := (nodes example_fs_missing)(''/alacritty.toml'' \<mapsto> File [])\<rparr>)"
  by (simp add: main_def backupConfig_def ReadFile_def Init_def Stat_def Create_def WriteFile_def
      example_fs_missing_def example_fs_def example_env_def initialModel_def Getenv_def)

end
